theory Spec2Isabelle
  imports Main "HOL-Library.List_Lexorder" "HOL-Library.Option_ord"
begin

section \<open>Exceptions, outcomes and the log\<close>

text \<open>
  The helpers of \<^verbatim>\<open>puppetboard/utils.py\<close> are driven by the exception a collaborator
  raises. An exception is modelled by its class and its message (\<^verbatim>\<open>str(e)\<close>). The classes
  are the ones the handlers of the module tell apart:
  \<^item> \<open>HTTPError c\<close>: \<^verbatim>\<open>requests.exceptions.HTTPError\<close> whose response has status code \<open>c\<close>;
  \<^item> \<open>ConnectionError\<close>: \<^verbatim>\<open>requests.exceptions.ConnectionError\<close>;
  \<^item> \<open>EmptyResponseError\<close>: \<^verbatim>\<open>pypuppetdb.errors.EmptyResponseError\<close>;
  \<^item> \<open>StopIteration\<close>, \<open>ValueError\<close>, \<open>SyntaxError\<close>, \<open>TypeError\<close>, \<open>LookupError\<close>: the
    built-in classes;
  \<^item> \<open>OtherException\<close>: any other class derived from \<^verbatim>\<open>Exception\<close>;
  \<^item> \<open>OtherBaseException\<close>: a class derived from \<^verbatim>\<open>BaseException\<close> but not from
    \<^verbatim>\<open>Exception\<close> (\<^verbatim>\<open>KeyboardInterrupt\<close>, \<^verbatim>\<open>SystemExit\<close>, \<^verbatim>\<open>GeneratorExit\<close>).
\<close>

datatype kind =
    HTTPError int
  | ConnectionError
  | EmptyResponseError
  | StopIteration
  | ValueError
  | SyntaxError
  | TypeError
  | LookupError
  | OtherException
  | OtherBaseException

datatype exn = Exn (kind: kind) (str: string)

text \<open>\<^verbatim>\<open>isinstance(e, Exception)\<close>, which the clause \<^verbatim>\<open>except Exception\<close> tests.\<close>

fun isinstance_Exception :: "kind \<Rightarrow> bool" where
  "isinstance_Exception OtherBaseException = False"
| "isinstance_Exception _ = True"

text \<open>
  What a call of a helper does: it returns a value, lets an exception escape, ends the
  request with a status code (the exception of the web framework for that code), or ends
  the process through \<^verbatim>\<open>sys.exit(code)\<close>.
\<close>

datatype 'a outcome =
    Returned 'a
  | Raised exn
  | Aborted int
  | Exited int

text \<open>The records written through \<^verbatim>\<open>log.info\<close>, \<^verbatim>\<open>log.warning\<close> and \<^verbatim>\<open>log.error\<close>, oldest first.\<close>

datatype level = INFO | WARNING | ERROR

type_synonym log_record = "level \<times> string"

section \<open>The abort of the web framework\<close>

text \<open>\<^verbatim>\<open>repr\<close> of an integer: its decimal digits, after a minus sign when it is negative.\<close>

definition digit_char :: "nat \<Rightarrow> char" where
  "digit_char d = char_of (48 + d)"

function digits :: "nat \<Rightarrow> string" where
  "digits n = (if n < 10 then [digit_char n] else digits (n div 10) @ [digit_char (n mod 10)])"
  by pat_completeness auto
termination
  by (relation "measure id") auto

declare digits.simps [simp del]

definition repr_int :: "int \<Rightarrow> string" where
  "repr_int i = (if i < 0 then CHR ''-'' # digits (nat (- i)) else digits (nat i))"

text \<open>
  Modelled from the spec: \<^verbatim>\<open>flask.abort\<close> belongs to the web framework, not to the
  repository. Section 6 of the specification describes it as the primitive that ends the
  current request with a status code. The framework does so by raising the exception
  class it has for the code, and it has one only for the error statuses of
  \<open>default_exceptions\<close> (the classes of \<^verbatim>\<open>werkzeug.exceptions\<close>, release 2.0). For any other
  code, 204 and 402 among them, \<^verbatim>\<open>abort\<close> raises \<^verbatim>\<open>LookupError\<close> and no request is ended
  with that code.
\<close>

definition default_exceptions :: "int list" where
  "default_exceptions =
     [400, 401, 403, 404, 405, 406, 408, 409, 410, 411, 412, 413, 414, 415, 416, 417, 418,
      422, 423, 424, 428, 429, 431, 451, 500, 501, 502, 503, 504, 505]"

definition abort :: "int \<Rightarrow> 'a outcome" where
  "abort code =
     (if code \<in> set default_exceptions then Aborted code
      else Raised (Exn LookupError (''no exception for '' @ repr_int code)))"

section \<open>The error-mapping wrapper\<close>

text \<open>
  \<^verbatim>\<open>_do_get_or_abort(reraise_client_error, func, *args, **kwargs)\<close>. The callable is a
  function from its arguments to the exception it raises or the value it returns. The
  handlers are tried in the order of the source: \<^verbatim>\<open>HTTPError\<close>, \<^verbatim>\<open>ConnectionError\<close>,
  \<^verbatim>\<open>EmptyResponseError\<close>, \<^verbatim>\<open>Exception\<close>; an exception none of them matches escapes. Each
  handler logs and then calls \<^verbatim>\<open>abort\<close>; what \<^verbatim>\<open>abort\<close> raises inside a handler is not
  caught by the handlers that follow.
\<close>

definition do_get_or_abort ::
    "bool \<Rightarrow> ('x \<Rightarrow> exn + 'a) \<Rightarrow> 'x \<Rightarrow> 'a outcome \<times> log_record list" where
  "do_get_or_abort reraise_client_error func args =
     (case func args of
        Inr result \<Rightarrow> (Returned result, [])
      | Inl e \<Rightarrow>
          (case kind e of
             HTTPError status_code \<Rightarrow>
               if reraise_client_error \<and> 400 \<le> status_code \<and> status_code \<le> 499
               then (Raised e, [(WARNING, str e)])
               else (abort status_code, [(ERROR, str e)])
           | ConnectionError \<Rightarrow> (abort 500, [(ERROR, str e)])
           | EmptyResponseError \<Rightarrow> (abort 204, [(ERROR, str e)])
           | k \<Rightarrow>
               if isinstance_Exception k
               then (abort 500, [(ERROR, str e)])
               else (Raised e, [])))"

definition get_or_abort :: "('x \<Rightarrow> exn + 'a) \<Rightarrow> 'x \<Rightarrow> 'a outcome \<times> log_record list" where
  "get_or_abort func args = do_get_or_abort False func args"

definition get_or_abort_except_client_errors ::
    "('x \<Rightarrow> exn + 'a) \<Rightarrow> 'x \<Rightarrow> 'a outcome \<times> log_record list" where
  "get_or_abort_except_client_errors func args = do_get_or_abort True func args"

section \<open>The version gate\<close>

text \<open>
  The backend client: \<^verbatim>\<open>puppetdb.current_version()\<close> raises an exception or returns the
  version string.
\<close>

record puppetdb =
  current_version :: "exn + string"

text \<open>
  The body of the \<^verbatim>\<open>try\<close> statement of \<^verbatim>\<open>check_db_version\<close>. The function \<open>parse\<close> is
  \<^verbatim>\<open>packaging.version.parse\<close>, which belongs to a library and is a parameter here; the
  version objects it returns are compared with \<open>\<le>\<close> and \<open><\<close>. A chained comparison
  \<^verbatim>\<open>a <= b < c\<close> is \<^verbatim>\<open>a <= b and b < c\<close>. \<^verbatim>\<open>sys.exit(1)\<close> ends the body.
\<close>

definition check_db_version_try ::
    "(string \<Rightarrow> 'v::ord) \<Rightarrow> puppetdb \<Rightarrow> unit outcome \<times> log_record list" where
  "check_db_version_try parse puppetdb =
     (case current_version puppetdb of
        Inl e \<Rightarrow> (Raised e, [])
      | Inr version \<Rightarrow>
          (let info = (INFO, ''PuppetDB version: '' @ version) in
           if parse ''5.2.0'' \<le> parse version \<and> parse version < parse ''5.2.13''
           then (Exited 1,
                 [info, (ERROR, ''For PuppetDB 5.2.x version >= 5.2.13 is required (with v2 metrics API)'')])
           else if parse ''5.3.0'' \<le> parse version \<and> parse version < parse ''5.3.13''
           then (Exited 1,
                 [info, (ERROR, ''For PuppetDB 5.3.x version >= 5.3.13 is required (with v2 metrics API)'')])
           else if parse ''6.0.0'' \<le> parse version \<and> parse version < parse ''6.9.1''
           then (Exited 1,
                 [info, (ERROR, ''For PuppetDB 6.x version >= 6.9.1 is required (with v2 metrics API)'')])
           else if parse version < parse ''5.2.13''
           then (Exited 1,
                 [info, (ERROR, ''The minimum supported version of PuppetDB is 5.2.13 (with v2 metrics API)'')])
           else (Returned (), [info])))"

text \<open>
  The handlers of the \<^verbatim>\<open>try\<close> statement: \<^verbatim>\<open>HTTPError\<close>, \<^verbatim>\<open>ConnectionError\<close> and
  \<^verbatim>\<open>EmptyResponseError\<close> are logged and end the process with code 2. Any other exception
  escapes, and so does the exit of the body.
\<close>

definition check_db_version ::
    "(string \<Rightarrow> 'v::ord) \<Rightarrow> puppetdb \<Rightarrow> unit outcome \<times> log_record list" where
  "check_db_version parse puppetdb =
     (case check_db_version_try parse puppetdb of
        (Raised e, logged) \<Rightarrow>
          (case kind e of
             HTTPError status_code \<Rightarrow> (Exited 2, logged @ [(ERROR, str e)])
           | ConnectionError \<Rightarrow> (Exited 2, logged @ [(ERROR, str e)])
           | EmptyResponseError \<Rightarrow> (Exited 2, logged @ [(ERROR, str e)])
           | _ \<Rightarrow> (Raised e, logged))
      | finished \<Rightarrow> finished)"

subsection \<open>Dotted numeric versions\<close>

text \<open>
  Modelled from the spec: the version parser and the order of versions come from the
  \<^verbatim>\<open>packaging\<close> library, which is not part of the repository. Section 3 of the
  specification describes a version string as a dotted numeric string compared by
  semantic-version ordering, not lexically. \<open>parse_version\<close> reads such a string as its
  list of numbers without trailing zeros (so that \<^verbatim>\<open>5.2\<close> and \<^verbatim>\<open>5.2.0\<close> are equal); lists
  are compared lexicographically. A string of another shape gives \<open>None\<close>, which the order
  on \<open>option\<close> places below every version. \<open>parse_version\<close> serves to run the gate on
  concrete dotted numeric strings only.
\<close>

fun split_on :: "char \<Rightarrow> string \<Rightarrow> string list" where
  "split_on sep [] = [[]]"
| "split_on sep (c # cs) =
     (if c = sep then [] # split_on sep cs
      else (case split_on sep cs of
              [] \<Rightarrow> [[c]]
            | part # parts \<Rightarrow> (c # part) # parts))"

definition is_digit :: "char \<Rightarrow> bool" where
  "is_digit c = (c \<in> set ''0123456789'')"

definition digit_value :: "char \<Rightarrow> nat" where
  "digit_value c = of_char c - 48"

definition number :: "string \<Rightarrow> nat option" where
  "number s =
     (if s \<noteq> [] \<and> list_all is_digit s
      then Some (foldl (\<lambda>n c. 10 * n + digit_value c) 0 s)
      else None)"

definition strip_trailing_zeros :: "nat list \<Rightarrow> nat list" where
  "strip_trailing_zeros release = rev (dropWhile (\<lambda>n. n = 0) (rev release))"

definition parse_version :: "string \<Rightarrow> nat list option" where
  "parse_version s = map_option strip_trailing_zeros (those (map number (split_on CHR ''.'' s)))"

section \<open>The streaming guard\<close>

text \<open>
  The generator handed to \<^verbatim>\<open>yield_or_stop\<close> is the list of the results of the successive
  calls \<^verbatim>\<open>next(generator)\<close>: an element, or the exception the call raises. A call on the
  generator at the end of the list raises \<^verbatim>\<open>StopIteration\<close>, the natural exhaustion.
\<close>

type_synonym 'a generator = "(exn + 'a) list"

text \<open>The tuple of classes of the \<^verbatim>\<open>except\<close> clause of \<^verbatim>\<open>yield_or_stop\<close>.\<close>

fun stops :: "kind \<Rightarrow> bool" where
  "stops EmptyResponseError = True"
| "stops ConnectionError = True"
| "stops (HTTPError status_code) = True"
| "stops StopIteration = True"
| "stops _ = False"

text \<open>
  \<^verbatim>\<open>yield_or_stop(generator)\<close>, consumed to its end: the elements it yields, in order, and
  the exception that reaches the consumer, if any (\<open>None\<close> when the guard returns). Each
  turn of the loop asks the generator for one element; the guard returns at the first
  exception of a class of the clause and lets any other exception escape.
\<close>

fun yield_or_stop :: "'a generator \<Rightarrow> 'a list \<times> exn option" where
  "yield_or_stop [] = ([], None)"
| "yield_or_stop (Inr x # generator) =
     (case yield_or_stop generator of (yielded, raised) \<Rightarrow> (x # yielded, raised))"
| "yield_or_stop (Inl e # generator) =
     (if stops (kind e) then ([], None) else ([], Some e))"

section \<open>Python values\<close>

text \<open>
  The values the formatter and the parser handle: \<^verbatim>\<open>None\<close>, a boolean, an integer, a
  string, a list, a tuple, or a dict as its entries in insertion order. They are the
  values of JSON documents and of Python literals, floats left out.
\<close>

datatype pyobject =
    NoneObj
  | BoolObj bool
  | IntObj int
  | StrObj string
  | ListObj "pyobject list"
  | TupleObj "pyobject list"
  | DictObj "(pyobject \<times> pyobject) list"

text \<open>\<^verbatim>\<open>sep.join(parts)\<close> of Python.\<close>

fun join :: "string \<Rightarrow> string list \<Rightarrow> string" where
  "join sep [] = []"
| "join sep [part] = part"
| "join sep (part # parts) = part @ sep @ join sep parts"

definition quoted :: "string \<Rightarrow> string" where
  "quoted s = CHR 0x27 # s @ [CHR 0x27]"

definition double_quoted :: "string \<Rightarrow> string" where
  "double_quoted s = CHR 0x22 # s @ [CHR 0x22]"

text \<open>\<^verbatim>\<open>type(obj).__name__\<close>.\<close>

fun type_name :: "pyobject \<Rightarrow> string" where
  "type_name NoneObj = ''NoneType''"
| "type_name (BoolObj b) = ''bool''"
| "type_name (IntObj i) = ''int''"
| "type_name (StrObj s) = ''str''"
| "type_name (ListObj elts) = ''list''"
| "type_name (TupleObj elts) = ''tuple''"
| "type_name (DictObj items) = ''dict''"

subsection \<open>A model of the built-in string conversion\<close>

text \<open>
  Modelled from the spec: the built-in \<^verbatim>\<open>str\<close> belongs to Python, not to the repository;
  section 4.4 of the specification calls its result the default string representation.
  \<open>py_str\<close> models it on the values above: a string is itself, any other value is its
  \<^verbatim>\<open>repr\<close>. The \<^verbatim>\<open>repr\<close> of a string is modelled for ASCII text: it is quoted with single
  quotes, or with double quotes when it holds a single quote and no double quote; the
  quote, the backslash and the control characters are escaped.
\<close>

definition hex_digit :: "nat \<Rightarrow> char" where
  "hex_digit d = (if d < 10 then char_of (48 + d) else char_of (87 + d))"

definition escape_char :: "char \<Rightarrow> char \<Rightarrow> string" where
  "escape_char quote c =
     (if c = quote \<or> c = CHR 0x5C then [CHR 0x5C, c]
      else if c = CHR 0x09 then [CHR 0x5C, CHR ''t'']
      else if c = CHR 0x0A then [CHR 0x5C, CHR ''n'']
      else if c = CHR 0x0D then [CHR 0x5C, CHR ''r'']
      else if (of_char c :: nat) < 32 \<or> c = CHR 0x7F
      then [CHR 0x5C, CHR ''x'', hex_digit (of_char c div 16), hex_digit (of_char c mod 16)]
      else [c])"

definition repr_str :: "string \<Rightarrow> string" where
  "repr_str s =
     (let quote = (if CHR 0x27 \<in> set s \<and> CHR 0x22 \<notin> set s then CHR 0x22 else CHR 0x27)
      in quote # concat (map (escape_char quote) s) @ [quote])"

function py_repr :: "pyobject \<Rightarrow> string"
  and py_repr_all :: "pyobject list \<Rightarrow> string list"
  and py_repr_items :: "(pyobject \<times> pyobject) list \<Rightarrow> string list"
where
  "py_repr NoneObj = ''None''"
| "py_repr (BoolObj b) = (if b then ''True'' else ''False'')"
| "py_repr (IntObj i) = repr_int i"
| "py_repr (StrObj s) = repr_str s"
| "py_repr (ListObj elts) = ''['' @ join '', '' (py_repr_all elts) @ '']''"
| "py_repr (TupleObj elts) =
     (case py_repr_all elts of
        [text] \<Rightarrow> ''('' @ text @ '',)''
      | texts \<Rightarrow> ''('' @ join '', '' texts @ '')'')"
| "py_repr (DictObj items) = ''{'' @ join '', '' (py_repr_items items) @ ''}''"
| "py_repr_all [] = []"
| "py_repr_all (obj # objs) = py_repr obj # py_repr_all objs"
| "py_repr_items [] = []"
| "py_repr_items ((key, val) # items) = (py_repr key @ '': '' @ py_repr val) # py_repr_items items"
  by pat_completeness auto
termination
  by (relation "measure (\<lambda>call. case call of
          Inl obj \<Rightarrow> size obj
        | Inr (Inl objs) \<Rightarrow> size_list size objs
        | Inr (Inr items) \<Rightarrow> size_list (size_prod size size) items)")
     auto

fun py_str :: "pyobject \<Rightarrow> string" where
  "py_str (StrObj s) = s"
| "py_str obj = py_repr obj"

section \<open>The value formatter\<close>

text \<open>The error of adding a string to the key \<open>k\<close> of a dict when \<open>k\<close> is no string.\<close>

definition add_str_error :: "pyobject \<Rightarrow> exn" where
  "add_str_error k =
     Exn TypeError
       (case k of
          TupleObj elts \<Rightarrow>
            ''can only concatenate tuple (not '' @ double_quoted ''str'' @ '') to tuple''
        | ListObj elts \<Rightarrow>
            ''can only concatenate list (not '' @ double_quoted ''str'' @ '') to list''
        | _ \<Rightarrow> ''unsupported operand type(s) for +: '' @ quoted (type_name k) @ '' and ''
                 @ quoted ''str'')"

text \<open>
  \<^verbatim>\<open>formatvalue(value)\<close>. The parameter \<open>str_of\<close> is the built-in \<^verbatim>\<open>str\<close>, applied to the
  values that are neither string, list nor dict; a tuple is among them.
  \<open>formatvalue_all\<close> is \<^verbatim>\<open>map(formatvalue, value)\<close> as \<^verbatim>\<open>join\<close> consumes it: the first error
  ends it. \<open>formatvalue_loop\<close> is the loop over a dict, with \<open>ret\<close> the text built so far and
  \<^verbatim>\<open>value[k]\<close> the value stored with the key; the sum of the key and the arrow is evaluated
  first and raises
  \<^verbatim>\<open>TypeError\<close> when the key is no string.
\<close>

function (sequential) formatvalue :: "(pyobject \<Rightarrow> string) \<Rightarrow> pyobject \<Rightarrow> exn + string"
  and formatvalue_all :: "(pyobject \<Rightarrow> string) \<Rightarrow> pyobject list \<Rightarrow> exn + string list"
  and formatvalue_loop ::
    "(pyobject \<Rightarrow> string) \<Rightarrow> (pyobject \<times> pyobject) list \<Rightarrow> string \<Rightarrow> exn + string"
where
  "formatvalue str_of (StrObj s) = Inr s"
| "formatvalue str_of (ListObj elems) =
     (case formatvalue_all str_of elems of
        Inl e \<Rightarrow> Inl e
      | Inr parts \<Rightarrow> Inr (join '', '' parts))"
| "formatvalue str_of (DictObj entries) = formatvalue_loop str_of entries []"
| "formatvalue str_of obj = Inr (str_of obj)"
| "formatvalue_all str_of [] = Inr []"
| "formatvalue_all str_of (elem # elems) =
     (case formatvalue str_of elem of
        Inl e \<Rightarrow> Inl e
      | Inr part \<Rightarrow>
          (case formatvalue_all str_of elems of
             Inl e \<Rightarrow> Inl e
           | Inr parts \<Rightarrow> Inr (part # parts)))"
| "formatvalue_loop str_of [] ret = Inr ret"
| "formatvalue_loop str_of ((k, v) # entries) ret =
     (case k of
        StrObj key \<Rightarrow>
          (case formatvalue str_of v of
             Inl e \<Rightarrow> Inl e
           | Inr text \<Rightarrow> formatvalue_loop str_of entries (ret @ key @ '' => '' @ text @ '',<br/>''))
      | _ \<Rightarrow> Inl (add_str_error k))"
  by pat_completeness auto
termination
  by (relation "measure (\<lambda>call. case call of
          Inl (str_of, obj) \<Rightarrow> size obj
        | Inr (Inl (str_of, objs)) \<Rightarrow> size_list size objs
        | Inr (Inr (str_of, entries, ret)) \<Rightarrow> size_list (size_prod size size) entries)")
     auto

text \<open>
  The values in which every key of every dict is a string, dicts inside lists and inside
  values of dicts included. What a tuple holds plays no part: a tuple goes to \<^verbatim>\<open>str\<close>.
\<close>

fun string_keys :: "pyobject \<Rightarrow> bool"
  and string_keys_all :: "pyobject list \<Rightarrow> bool"
  and string_keys_items :: "(pyobject \<times> pyobject) list \<Rightarrow> bool"
where
  "string_keys (ListObj elems) = string_keys_all elems"
| "string_keys (DictObj entries) = string_keys_items entries"
| "string_keys obj = True"
| "string_keys_all [] = True"
| "string_keys_all (elem # elems) = (string_keys elem \<and> string_keys_all elems)"
| "string_keys_items [] = True"
| "string_keys_items ((k, v) # entries) =
     ((case k of StrObj key \<Rightarrow> True | _ \<Rightarrow> False) \<and> string_keys v \<and> string_keys_items entries)"

section \<open>The value parser\<close>

text \<open>
  \<^verbatim>\<open>parse_python(value)\<close>. The parameter \<open>literal_eval\<close> is \<^verbatim>\<open>ast.literal_eval\<close> of the
  Python standard library: it returns the value of the literal or raises. The two
  handlers return \<^verbatim>\<open>str(value)\<close>, the argument itself; an exception of another class
  escapes.
\<close>

definition parse_python ::
    "(string \<Rightarrow> exn + pyobject) \<Rightarrow> string \<Rightarrow> pyobject outcome" where
  "parse_python literal_eval value =
     (case literal_eval value of
        Inr result \<Rightarrow> Returned result
      | Inl e \<Rightarrow>
          (case kind e of
             ValueError \<Rightarrow> Returned (StrObj value)
           | SyntaxError \<Rightarrow> Returned (StrObj value)
           | _ \<Rightarrow> Raised e))"

subsection \<open>A model of the literal evaluator\<close>

text \<open>
  Modelled from the spec: \<^verbatim>\<open>ast.literal_eval\<close> belongs to the Python standard library,
  not to the repository. Section 9 of the specification describes it as the parser of a
  restricted literal grammar: numbers, booleans, quoted strings, nested lists, maps and
  tuples. \<open>ast_literal_eval\<close> models the library on this grammar, with decimal integers
  for the numbers and strings without escapes. Like the library it works in two steps: the
  text is parsed into a tree (\<open>ast_parse\<close>, which raises \<^verbatim>\<open>SyntaxError\<close>), and the tree is
  converted into a value (\<open>convert\<close>, which raises \<^verbatim>\<open>ValueError\<close> on a node that is no
  literal, and \<^verbatim>\<open>TypeError\<close> when a key of a dict cannot be hashed). Text outside the
  grammar is reported as a syntax error, although the library accepts more literals
  (floats, signed numbers, sets, bytes, escapes in strings); the model serves to run
  \<open>parse_python\<close> on concrete strings of the grammar.
\<close>

text \<open>
  The tokens. A decimal integer with a leading zero is valid only when it is zero, and no
  name follows a number directly. A string is closed by the quote that opens it and holds
  neither a backslash nor a line feed.
\<close>

datatype token =
    LBRACK | RBRACK | LPAR | RPAR | LBRACE | RBRACE | COMMA | COLON
  | NUMBER nat
  | STRING string
  | NAME string

definition is_name_start :: "char \<Rightarrow> bool" where
  "is_name_start c = (c \<in> set ''abcdefghijklmnopqrstuvwxyzABCDEFGHIJKLMNOPQRSTUVWXYZ_'')"

definition is_name_char :: "char \<Rightarrow> bool" where
  "is_name_char c = (is_name_start c \<or> is_digit c)"

definition decimal :: "string \<Rightarrow> nat option" where
  "decimal ds =
     (if length ds > 1 \<and> take 1 ds = ''0'' \<and> \<not> list_all (\<lambda>d. d = CHR ''0'') ds
      then None
      else Some (foldl (\<lambda>n c. 10 * n + digit_value c) 0 ds))"

definition punctuation :: "char \<Rightarrow> token option" where
  "punctuation c =
     (if c = CHR ''['' then Some LBRACK
      else if c = CHR '']'' then Some RBRACK
      else if c = CHR ''('' then Some LPAR
      else if c = CHR '')'' then Some RPAR
      else if c = CHR ''{'' then Some LBRACE
      else if c = CHR ''}'' then Some RBRACE
      else if c = CHR '','' then Some COMMA
      else if c = CHR '':'' then Some COLON
      else None)"

definition starts_name :: "string \<Rightarrow> bool" where
  "starts_name cs = (case cs of [] \<Rightarrow> False | c # rest \<Rightarrow> is_name_start c)"

function tokenize :: "string \<Rightarrow> token list option" where
  "tokenize [] = Some []"
| "tokenize (c # cs) =
     (if c = CHR '' '' then tokenize cs
      else (case punctuation c of
              Some t \<Rightarrow> map_option (Cons t) (tokenize cs)
            | None \<Rightarrow>
                if is_digit c
                then (if starts_name (dropWhile is_digit cs) then None
                      else (case decimal (c # takeWhile is_digit cs) of
                              None \<Rightarrow> None
                            | Some n \<Rightarrow>
                                map_option (Cons (NUMBER n)) (tokenize (dropWhile is_digit cs))))
                else if is_name_start c
                then map_option (Cons (NAME (c # takeWhile is_name_char cs)))
                       (tokenize (dropWhile is_name_char cs))
                else if c = CHR 0x27 \<or> c = CHR 0x22
                then (let body = takeWhile (\<lambda>d. d \<noteq> c) cs in
                      if CHR 0x5C \<in> set body \<or> CHR 0x0A \<in> set body then None
                      else (case dropWhile (\<lambda>d. d \<noteq> c) cs of
                              [] \<Rightarrow> None
                            | closing # rest \<Rightarrow> map_option (Cons (STRING body)) (tokenize rest)))
                else None))"
  by pat_completeness auto
termination
proof (relation "measure length")
  fix c :: char and cs closing rest
  assume "dropWhile (\<lambda>d. d \<noteq> c) cs = closing # rest"
  then have "length (closing # rest) \<le> length cs"
    by (metis length_dropWhile_le)
  then show "(rest, c # cs) \<in> measure length"
    by simp
qed (simp_all add: le_imp_less_Suc length_dropWhile_le)

text \<open>
  The trees of the \<^verbatim>\<open>ast\<close> module: \<^verbatim>\<open>Constant\<close>, \<^verbatim>\<open>Name\<close>, \<^verbatim>\<open>List\<close>, \<^verbatim>\<open>Tuple\<close>, and
  \<^verbatim>\<open>Dict\<close> with its keys and its values.
\<close>

datatype node =
    Constant pyobject
  | Name string
  | ListNode "node list"
  | TupleNode "node list"
  | DictNode "node list" "node list"

fun adjacent_strings :: "token list \<Rightarrow> string \<times> token list" where
  "adjacent_strings (STRING s # ts) =
     (case adjacent_strings ts of (others, rest) \<Rightarrow> (s @ others, rest))"
| "adjacent_strings ts = ([], ts)"

definition name_node :: "string \<Rightarrow> node" where
  "name_node x =
     (if x = ''True'' then Constant (BoolObj True)
      else if x = ''False'' then Constant (BoolObj False)
      else if x = ''None'' then Constant NoneObj
      else Name x)"

fun parse_expr :: "nat \<Rightarrow> token list \<Rightarrow> (node \<times> token list) option"
  and parse_elts :: "nat \<Rightarrow> token \<Rightarrow> token list \<Rightarrow> (node list \<times> bool \<times> token list) option"
  and parse_items :: "nat \<Rightarrow> token list \<Rightarrow> (node list \<times> node list \<times> token list) option"
where
  "parse_expr 0 ts = None"
| "parse_expr (Suc depth) [] = None"
| "parse_expr (Suc depth) (t # ts) =
     (case t of
        NUMBER n \<Rightarrow> Some (Constant (IntObj (int n)), ts)
      | STRING s \<Rightarrow>
          (case adjacent_strings ts of (others, rest) \<Rightarrow> Some (Constant (StrObj (s @ others)), rest))
      | NAME x \<Rightarrow> Some (name_node x, ts)
      | LBRACK \<Rightarrow>
          (case parse_elts depth RBRACK ts of
             None \<Rightarrow> None
           | Some (elts, comma, rest) \<Rightarrow> Some (ListNode elts, rest))
      | LPAR \<Rightarrow>
          (case parse_elts depth RPAR ts of
             None \<Rightarrow> None
           | Some (elts, comma, rest) \<Rightarrow>
               (case (elts, comma) of
                  ([elt], False) \<Rightarrow> Some (elt, rest)
                | _ \<Rightarrow> Some (TupleNode elts, rest)))
      | LBRACE \<Rightarrow>
          (case parse_items depth ts of
             None \<Rightarrow> None
           | Some (keys, values, rest) \<Rightarrow> Some (DictNode keys values, rest))
      | _ \<Rightarrow> None)"
| "parse_elts 0 closing ts = None"
| "parse_elts (Suc depth) closing [] = None"
| "parse_elts (Suc depth) closing (t # ts) =
     (if t = closing then Some ([], False, ts)
      else (case parse_expr depth (t # ts) of
              None \<Rightarrow> None
            | Some (elt, []) \<Rightarrow> None
            | Some (elt, r # rest) \<Rightarrow>
                if r = closing then Some ([elt], False, rest)
                else if r = COMMA
                then (case parse_elts depth closing rest of
                        None \<Rightarrow> None
                      | Some (elts, comma, rest') \<Rightarrow> Some (elt # elts, True, rest'))
                else None))"
| "parse_items 0 ts = None"
| "parse_items (Suc depth) [] = None"
| "parse_items (Suc depth) (t # ts) =
     (if t = RBRACE then Some ([], [], ts)
      else (case parse_expr depth (t # ts) of
              Some (key, COLON # rest) \<Rightarrow>
                (case parse_expr depth rest of
                   None \<Rightarrow> None
                 | Some (val, []) \<Rightarrow> None
                 | Some (val, r # rest') \<Rightarrow>
                     if r = RBRACE then Some ([key], [val], rest')
                     else if r = COMMA
                     then (case parse_items depth rest' of
                             None \<Rightarrow> None
                           | Some (keys, values, rest'') \<Rightarrow>
                               Some (key # keys, val # values, rest''))
                     else None)
            | _ \<Rightarrow> None))"

text \<open>
  The top level of the text is an expression list, as between parentheses. The parser is
  bounded in the depth of its calls, as the parser of the library is in the depth of
  nesting; the bound grows with the number of tokens.
\<close>

definition ast_parse :: "string \<Rightarrow> exn + node" where
  "ast_parse source =
     (case tokenize source of
        None \<Rightarrow> Inl (Exn SyntaxError ''invalid syntax'')
      | Some [] \<Rightarrow> Inl (Exn SyntaxError ''invalid syntax'')
      | Some ts \<Rightarrow>
          (case parse_expr (2 * length ts + 4) (LPAR # ts @ [RPAR]) of
             Some (tree, []) \<Rightarrow> Inr tree
           | _ \<Rightarrow> Inl (Exn SyntaxError ''invalid syntax'')))"

text \<open>
  Hashing and equality of keys: lists and dicts cannot be hashed, a tuple can when its
  components can; \<^verbatim>\<open>True\<close> equals 1 and \<^verbatim>\<open>False\<close> equals 0. Storing under a key equal to
  a present one replaces the value and keeps the place.
\<close>

fun unhashable_type :: "pyobject \<Rightarrow> string option"
  and unhashable_types :: "pyobject list \<Rightarrow> string option"
where
  "unhashable_type (ListObj elts) = Some ''list''"
| "unhashable_type (DictObj items) = Some ''dict''"
| "unhashable_type (TupleObj elts) = unhashable_types elts"
| "unhashable_type obj = None"
| "unhashable_types [] = None"
| "unhashable_types (obj # objs) =
     (case unhashable_type obj of None \<Rightarrow> unhashable_types objs | Some t \<Rightarrow> Some t)"

fun py_eq :: "pyobject \<Rightarrow> pyobject \<Rightarrow> bool"
  and py_eq_all :: "pyobject list \<Rightarrow> pyobject list \<Rightarrow> bool"
where
  "py_eq NoneObj NoneObj = True"
| "py_eq (BoolObj a) (BoolObj b) = (a = b)"
| "py_eq (BoolObj a) (IntObj j) = ((if a then 1 else 0) = j)"
| "py_eq (IntObj i) (BoolObj b) = (i = (if b then 1 else 0))"
| "py_eq (IntObj i) (IntObj j) = (i = j)"
| "py_eq (StrObj s) (StrObj t) = (s = t)"
| "py_eq (TupleObj xs) (TupleObj ys) = py_eq_all xs ys"
| "py_eq x y = False"
| "py_eq_all [] [] = True"
| "py_eq_all (x # xs) (y # ys) = (py_eq x y \<and> py_eq_all xs ys)"
| "py_eq_all xs ys = False"

fun dict_setitem :: "pyobject \<Rightarrow> pyobject \<Rightarrow> (pyobject \<times> pyobject) list \<Rightarrow> (pyobject \<times> pyobject) list" where
  "dict_setitem key val [] = [(key, val)]"
| "dict_setitem key val ((k, v) # items) =
     (if py_eq k key then (k, val) # items else (k, v) # dict_setitem key val items)"

text \<open>
  \<^verbatim>\<open>_convert\<close> of the library. A dict is built by \<^verbatim>\<open>dict(zip(map(_convert, keys),
  map(_convert, values)))\<close>: each key is converted, then its value, then the entry is stored.
\<close>

function convert :: "node \<Rightarrow> exn + pyobject"
  and convert_elts :: "node list \<Rightarrow> exn + pyobject list"
  and convert_items :: "node list \<Rightarrow> node list \<Rightarrow> (pyobject \<times> pyobject) list \<Rightarrow> exn + pyobject"
where
  "convert (Constant obj) = Inr obj"
| "convert (Name x) = Inl (Exn ValueError ''malformed node or string'')"
| "convert (ListNode elts) =
     (case convert_elts elts of Inl e \<Rightarrow> Inl e | Inr objs \<Rightarrow> Inr (ListObj objs))"
| "convert (TupleNode elts) =
     (case convert_elts elts of Inl e \<Rightarrow> Inl e | Inr objs \<Rightarrow> Inr (TupleObj objs))"
| "convert (DictNode keys values) =
     (if length keys \<noteq> length values then Inl (Exn ValueError ''malformed node or string'')
      else convert_items keys values [])"
| "convert_elts [] = Inr []"
| "convert_elts (elt # elts) =
     (case convert elt of
        Inl e \<Rightarrow> Inl e
      | Inr obj \<Rightarrow> (case convert_elts elts of Inl e \<Rightarrow> Inl e | Inr objs \<Rightarrow> Inr (obj # objs)))"
| "convert_items [] values stored = Inr (DictObj stored)"
| "convert_items (key # keys) [] stored =
     (case convert key of Inl e \<Rightarrow> Inl e | Inr k \<Rightarrow> Inr (DictObj stored))"
| "convert_items (key # keys) (val # values) stored =
     (case convert key of
        Inl e \<Rightarrow> Inl e
      | Inr k \<Rightarrow>
          (case convert val of
             Inl e \<Rightarrow> Inl e
           | Inr v \<Rightarrow>
               (case unhashable_type k of
                  Some t \<Rightarrow> Inl (Exn TypeError (''unhashable type: '' @ quoted t))
                | None \<Rightarrow> convert_items keys values (dict_setitem k v stored))))"
  by pat_completeness auto
termination
  by (relation "measure (\<lambda>call. case call of
          Inl tree \<Rightarrow> 2 * size tree
        | Inr (Inl elts) \<Rightarrow> 2 * size_list size elts + 1
        | Inr (Inr (keys, values, stored)) \<Rightarrow>
            2 * (size_list size keys + size_list size values) + 1)")
     auto

definition ast_literal_eval :: "string \<Rightarrow> exn + pyobject" where
  "ast_literal_eval source =
     (case ast_parse source of Inl e \<Rightarrow> Inl e | Inr tree \<Rightarrow> convert tree)"

section \<open>The environment validator\<close>

text \<open>
  \<^verbatim>\<open>check_env(env, envs)\<close>: returns \<^verbatim>\<open>None\<close> or ends the request through \<^verbatim>\<open>abort(404)\<close>; the
  framework has an exception class for 404, so this call aborts the request with 404.
\<close>

definition check_env :: "string \<Rightarrow> string set \<Rightarrow> unit outcome" where
  "check_env env envs = (if env \<noteq> ''*'' \<and> env \<notin> envs then Aborted 404 else Returned ())"

section \<open>Properties of the error-mapping wrapper\<close>

lemma do_get_or_abort_success:
  "func args = Inr result \<Longrightarrow> do_get_or_abort flag func args = (Returned result, [])"
  by (simp add: do_get_or_abort_def)

text \<open>
  Claim C9. When the call of the callable succeeds, \<open>get_or_abort\<close> and
  \<open>get_or_abort_except_client_errors\<close> both return its result unchanged: no abort, no
  escaping exception, nothing logged.
\<close>

theorem get_or_abort_returns_result:
  assumes "func args = Inr result"
  shows "get_or_abort func args = (Returned result, [])
       \<and> get_or_abort_except_client_errors func args = (Returned result, [])"
  using assms
  by (simp add: get_or_abort_def get_or_abort_except_client_errors_def do_get_or_abort_success)

theorem get_or_abort_returns_result_witness:
  "get_or_abort (\<lambda>n::nat. (Inr (n + 1) :: exn + nat)) 41 = (Returned 42, [])
 \<and> get_or_abort_except_client_errors (\<lambda>n::nat. (Inr (n + 1) :: exn + nat)) 41 = (Returned 42, [])"
  using get_or_abort_returns_result [of "\<lambda>n::nat. (Inr (n + 1) :: exn + nat)" 41 42]
  by simp

text \<open>
  What \<^verbatim>\<open>abort\<close> does with the codes the wrapper passes to it: 500 has an exception class,
  204 has none.
\<close>

lemma repr_int_examples:
  "repr_int 204 = ''204''"
  "repr_int 402 = ''402''"
  "repr_int 507 = ''507''"
  by code_simp+

lemma abort_with_exception_class:
  "code \<in> set default_exceptions \<Longrightarrow> abort code = Aborted code"
  by (simp add: abort_def)

lemma abort_without_exception_class:
  "code \<notin> set default_exceptions \<Longrightarrow>
   abort code = Raised (Exn LookupError (''no exception for '' @ repr_int code))"
  by (simp add: abort_def)

lemma abort_examples:
  "abort 404 = Aborted 404"
  "abort 500 = Aborted 500"
  "abort 503 = Aborted 503"
  "abort 204 = Raised (Exn LookupError ''no exception for 204'')"
  "abort 402 = Raised (Exn LookupError ''no exception for 402'')"
  "abort 507 = Raised (Exn LookupError ''no exception for 507'')"
  by (simp_all add: abort_def default_exceptions_def repr_int_examples)

lemma do_get_or_abort_http:
  "func args = Inl e \<Longrightarrow> kind e = HTTPError c \<Longrightarrow>
   do_get_or_abort flag func args =
     (if flag \<and> 400 \<le> c \<and> c \<le> 499 then (Raised e, [(WARNING, str e)])
      else (abort c, [(ERROR, str e)]))"
  by (simp add: do_get_or_abort_def)

lemma http_error_with_exception_class:
  assumes "func args = Inl e" and "kind e = HTTPError c" and "c \<in> set default_exceptions"
  shows "get_or_abort_except_client_errors func args =
           (if 400 \<le> c \<and> c \<le> 499 then (Raised e, [(WARNING, str e)])
            else (Aborted c, [(ERROR, str e)]))
       \<and> get_or_abort func args = (Aborted c, [(ERROR, str e)])"
  using assms
  by (simp add: get_or_abort_def get_or_abort_except_client_errors_def do_get_or_abort_http
        abort_with_exception_class)

lemma http_error_client_error_reraised:
  assumes "func args = Inl e" and "kind e = HTTPError c" and "400 \<le> c" and "c \<le> 499"
  shows "get_or_abort_except_client_errors func args = (Raised e, [(WARNING, str e)])"
  using assms
  by (simp add: get_or_abort_except_client_errors_def do_get_or_abort_http)

text \<open>
  Claim C1. When the call raises an HTTP error carrying the status code \<open>c\<close>,
  \<open>get_or_abort_except_client_errors\<close> lets the same error escape when \<open>400 \<le> c \<le> 499\<close>;
  otherwise, and for every \<open>c\<close> in \<open>get_or_abort\<close>, the wrapper passes \<open>c\<close> to \<^verbatim>\<open>abort\<close>. The
  request is aborted with \<open>c\<close> when the framework has an exception class for \<open>c\<close>
  (\<open>http_error_with_exception_class\<close>), but not for every \<open>c\<close>, as the claim and the
  docstring of the wrapper say (in all other cases the request is simply aborted): at 402
  in \<open>get_or_abort\<close>, and at 507 in \<open>get_or_abort_except_client_errors\<close>, the error is
  logged, \<^verbatim>\<open>abort\<close> raises \<^verbatim>\<open>LookupError\<close> inside the handler, and that exception escapes the
  wrapper instead of an abort with the carried code.
\<close>

theorem http_error_without_exception_class:
  "get_or_abort (\<lambda>u::unit. (Inl (Exn (HTTPError 402) ''Payment Required'') :: exn + nat)) ()
     = (Raised (Exn LookupError ''no exception for 402''), [(ERROR, ''Payment Required'')])
 \<and> get_or_abort_except_client_errors
       (\<lambda>u::unit. (Inl (Exn (HTTPError 507) ''Insufficient Storage'') :: exn + nat)) ()
     = (Raised (Exn LookupError ''no exception for 507''), [(ERROR, ''Insufficient Storage'')])"
  by (simp add: get_or_abort_def get_or_abort_except_client_errors_def do_get_or_abort_def
        abort_examples)

text \<open>
  The parts of claim C2 that hold, whatever the flag: a connectivity error, and any error
  other than an HTTP error and an empty response, abort the request with 500.
\<close>

lemma connectivity_and_other_errors_abort:
  assumes "func args = Inl e"
  shows "(kind e = ConnectionError \<longrightarrow>
            do_get_or_abort flag func args = (Aborted 500, [(ERROR, str e)]))
       \<and> (kind e \<noteq> ConnectionError \<and> kind e \<noteq> EmptyResponseError
            \<and> (\<forall>c. kind e \<noteq> HTTPError c) \<and> isinstance_Exception (kind e) \<longrightarrow>
            do_get_or_abort flag func args = (Aborted 500, [(ERROR, str e)]))"
  using assms
  by (cases "kind e") (simp_all add: do_get_or_abort_def abort_examples)

lemma empty_response_error:
  "func args = Inl e \<Longrightarrow> kind e = EmptyResponseError \<Longrightarrow>
   do_get_or_abort flag func args
     = (Raised (Exn LookupError ''no exception for 204''), [(ERROR, str e)])"
  by (simp add: do_get_or_abort_def abort_examples)

text \<open>
  Claim C2. The wrapper is to abort with 500 on a connectivity error, with 204 on an
  empty response of the backend and with 500 on any other error. On an empty response,
  with either value of the flag, it logs the error and calls \<^verbatim>\<open>abort(204)\<close>; the framework
  has no exception class for 204, so \<^verbatim>\<open>abort\<close> raises \<^verbatim>\<open>LookupError\<close> inside the handler
  and the request is not aborted with 204.
\<close>

theorem empty_response_not_aborted:
  "do_get_or_abort False (\<lambda>u::unit. (Inl (Exn EmptyResponseError ''empty'') :: exn + nat)) ()
     = (Raised (Exn LookupError ''no exception for 204''), [(ERROR, ''empty'')])
 \<and> do_get_or_abort True (\<lambda>u::unit. (Inl (Exn EmptyResponseError ''empty'') :: exn + nat)) ()
     = (Raised (Exn LookupError ''no exception for 204''), [(ERROR, ''empty'')])"
  by (simp add: empty_response_error)

section \<open>Properties of the version gate\<close>

lemma check_db_version_fetched:
  "current_version puppetdb = Inr v \<Longrightarrow>
   check_db_version parse puppetdb = check_db_version_try parse puppetdb"
  by (simp add: check_db_version_def check_db_version_try_def Let_def)

lemma check_db_version_try_fetched:
  "current_version puppetdb = Inr v \<Longrightarrow>
   fst (check_db_version_try parse puppetdb) =
     (if (parse ''5.2.0'' \<le> parse v \<and> parse v < parse ''5.2.13'')
       \<or> (parse ''5.3.0'' \<le> parse v \<and> parse v < parse ''5.3.13'')
       \<or> (parse ''6.0.0'' \<le> parse v \<and> parse v < parse ''6.9.1'')
       \<or> parse v < parse ''5.2.13''
      then Exited 1 else Returned ())"
  by (simp add: check_db_version_try_def Let_def)

text \<open>
  Claim C3. For a version string \<open>v\<close> that was fetched, the gate ends the process with
  exit code 1 exactly when \<open>5.2.0 \<le> v < 5.2.13\<close>, or \<open>5.3.0 \<le> v < 5.3.13\<close>, or
  \<open>6.0.0 \<le> v < 6.9.1\<close>, or \<open>v < 5.2.13\<close>, in the order of the parsed versions; for every
  other fetched version it returns normally. This holds for any parser and any order. On
  dotted numeric versions: 5.2.13 and 6.9.1 are accepted; 5.2.5, 5.3.5, 5.1.0 and 6.9.0
  end the process with exit code 1.
\<close>

theorem check_db_version_rejects_exactly:
  assumes "current_version puppetdb = Inr v"
  shows "fst (check_db_version parse puppetdb) =
     (if (parse ''5.2.0'' \<le> parse v \<and> parse v < parse ''5.2.13'')
       \<or> (parse ''5.3.0'' \<le> parse v \<and> parse v < parse ''5.3.13'')
       \<or> (parse ''6.0.0'' \<le> parse v \<and> parse v < parse ''6.9.1'')
       \<or> parse v < parse ''5.2.13''
      then Exited 1 else Returned ())"
  using assms
  by (simp only: check_db_version_fetched check_db_version_try_fetched)

lemma parse_version_bounds:
  "parse_version ''5.2.0'' = Some [5, 2]"
  "parse_version ''5.2.13'' = Some [5, 2, 13]"
  "parse_version ''5.3.0'' = Some [5, 3]"
  "parse_version ''5.3.13'' = Some [5, 3, 13]"
  "parse_version ''6.0.0'' = Some [6]"
  "parse_version ''6.9.1'' = Some [6, 9, 1]"
  by code_simp+

lemma parse_version_examples:
  "parse_version ''5.2.5'' = Some [5, 2, 5]"
  "parse_version ''5.3.5'' = Some [5, 3, 5]"
  "parse_version ''5.1.0'' = Some [5, 1]"
  "parse_version ''6.9.0'' = Some [6, 9]"
  by code_simp+

theorem check_db_version_rejects_exactly_witness:
  "fst (check_db_version parse_version \<lparr>current_version = Inr ''5.2.5''\<rparr>) = Exited 1
 \<and> fst (check_db_version parse_version \<lparr>current_version = Inr ''5.2.13''\<rparr>) = Returned ()
 \<and> fst (check_db_version parse_version \<lparr>current_version = Inr ''5.3.5''\<rparr>) = Exited 1
 \<and> fst (check_db_version parse_version \<lparr>current_version = Inr ''6.9.1''\<rparr>) = Returned ()
 \<and> fst (check_db_version parse_version \<lparr>current_version = Inr ''5.1.0''\<rparr>) = Exited 1
 \<and> fst (check_db_version parse_version \<lparr>current_version = Inr ''6.9.0''\<rparr>) = Exited 1"
  using check_db_version_rejects_exactly [of "\<lparr>current_version = Inr ''5.2.5''\<rparr>" "''5.2.5''" parse_version]
        check_db_version_rejects_exactly [of "\<lparr>current_version = Inr ''5.2.13''\<rparr>" "''5.2.13''" parse_version]
        check_db_version_rejects_exactly [of "\<lparr>current_version = Inr ''5.3.5''\<rparr>" "''5.3.5''" parse_version]
        check_db_version_rejects_exactly [of "\<lparr>current_version = Inr ''6.9.1''\<rparr>" "''6.9.1''" parse_version]
        check_db_version_rejects_exactly [of "\<lparr>current_version = Inr ''5.1.0''\<rparr>" "''5.1.0''" parse_version]
        check_db_version_rejects_exactly [of "\<lparr>current_version = Inr ''6.9.0''\<rparr>" "''6.9.0''" parse_version]
  by (simp add: parse_version_bounds parse_version_examples)

text \<open>
  Claim C4. When fetching the version fails with a connectivity error, an empty response
  or an HTTP error, the gate writes the error to the log and ends the process with exit
  code 2: neither exit code 1 nor a normal return.
\<close>

theorem check_db_version_fetch_failure:
  assumes "current_version puppetdb = Inl e"
    and "kind e = ConnectionError \<or> kind e = EmptyResponseError \<or> (\<exists>c. kind e = HTTPError c)"
  shows "check_db_version parse puppetdb = (Exited 2, [(ERROR, str e)])"
  using assms
  by (auto simp add: check_db_version_def check_db_version_try_def)

theorem check_db_version_fetch_failure_witness:
  "check_db_version parse_version \<lparr>current_version = Inl (Exn ConnectionError ''refused'')\<rparr>
     = (Exited 2, [(ERROR, ''refused'')])
 \<and> check_db_version parse_version \<lparr>current_version = Inl (Exn EmptyResponseError ''empty'')\<rparr>
     = (Exited 2, [(ERROR, ''empty'')])
 \<and> check_db_version parse_version \<lparr>current_version = Inl (Exn (HTTPError 503) ''unavailable'')\<rparr>
     = (Exited 2, [(ERROR, ''unavailable'')])"
  using check_db_version_fetch_failure
          [of "\<lparr>current_version = Inl (Exn ConnectionError ''refused'')\<rparr>"
              "Exn ConnectionError ''refused''" parse_version]
        check_db_version_fetch_failure
          [of "\<lparr>current_version = Inl (Exn EmptyResponseError ''empty'')\<rparr>"
              "Exn EmptyResponseError ''empty''" parse_version]
        check_db_version_fetch_failure
          [of "\<lparr>current_version = Inl (Exn (HTTPError 503) ''unavailable'')\<rparr>"
              "Exn (HTTPError 503) ''unavailable''" parse_version]
  by simp

section \<open>Properties of the streaming guard\<close>

lemma yield_or_stop_elements:
  "yield_or_stop (map Inr xs @ generator) =
     (case yield_or_stop generator of (yielded, raised) \<Rightarrow> (xs @ yielded, raised))"
  by (induction xs) (simp_all split: prod.splits)

text \<open>
  Claim C5. When the generator yields the elements \<open>xs\<close> and then is exhausted, or then
  raises a connectivity error, an empty response or an HTTP error (or \<^verbatim>\<open>StopIteration\<close>
  itself), \<open>yield_or_stop\<close> yields exactly \<open>xs\<close>, in the same order and with nothing
  repeated, and then ends without an exception. What the generator would do after the
  exception (\<open>later\<close>) plays no part.
\<close>

theorem yield_or_stop_yields_prefix:
  "yield_or_stop (map Inr xs) = (xs, None)
 \<and> (kind e = ConnectionError \<or> kind e = EmptyResponseError \<or> (\<exists>c. kind e = HTTPError c)
        \<or> kind e = StopIteration
      \<longrightarrow> yield_or_stop (map Inr xs @ Inl e # later) = (xs, None))"
proof -
  have "yield_or_stop (map Inr xs @ []) = (xs, None)"
    by (simp only: yield_or_stop_elements) simp
  moreover have "yield_or_stop (map Inr xs @ Inl e # later) = (xs, None)" if "stops (kind e)"
    using that by (simp add: yield_or_stop_elements)
  ultimately show ?thesis by auto
qed

theorem yield_or_stop_yields_prefix_witness:
  "yield_or_stop [Inr (1::int), Inr 2, Inr 3, Inl (Exn ConnectionError ''refused'')] = ([1, 2, 3], None)
 \<and> yield_or_stop [Inr (1::int), Inr 2, Inr 3] = ([1, 2, 3], None)
 \<and> yield_or_stop [Inr (1::int), Inr 2, Inl (Exn (HTTPError 500) ''failed''), Inr 3] = ([1, 2], None)
 \<and> yield_or_stop [Inr (1::int), Inl (Exn EmptyResponseError ''empty'')] = ([1], None)"
  using yield_or_stop_yields_prefix [of "[1, 2, 3 :: int]" "Exn ConnectionError ''refused''" "[]"]
        yield_or_stop_yields_prefix [of "[1, 2 :: int]" "Exn (HTTPError 500) ''failed''" "[Inr 3]"]
        yield_or_stop_yields_prefix [of "[1 :: int]" "Exn EmptyResponseError ''empty''" "[]"]
  by simp

text \<open>
  Claim C10. When the generator, after the elements \<open>xs\<close>, raises an exception that is
  neither a connectivity error, an empty response, an HTTP error nor \<^verbatim>\<open>StopIteration\<close>,
  \<open>yield_or_stop\<close> yields \<open>xs\<close> and then lets that same exception reach its consumer.
\<close>

theorem yield_or_stop_propagates:
  assumes "kind e \<noteq> ConnectionError" and "kind e \<noteq> EmptyResponseError"
    and "\<forall>c. kind e \<noteq> HTTPError c" and "kind e \<noteq> StopIteration"
  shows "yield_or_stop (map Inr xs @ Inl e # later) = (xs, Some e)"
proof -
  have "\<not> stops (kind e)"
    using assms by (cases "kind e") simp_all
  then show ?thesis
    by (simp add: yield_or_stop_elements)
qed

theorem yield_or_stop_propagates_witness:
  "yield_or_stop [Inr (1::int), Inr 2, Inl (Exn ValueError ''bad value''), Inr 3]
     = ([1, 2], Some (Exn ValueError ''bad value''))"
  using yield_or_stop_propagates [of "Exn ValueError ''bad value''" "[1, 2 :: int]" "[Inr 3]"]
  by simp

section \<open>Properties of the value formatter\<close>

lemma join_concat:
  "join sep parts = (case parts of [] \<Rightarrow> [] | p # ps \<Rightarrow> p @ concat (map (\<lambda>q. sep @ q) ps))"
  by (induction sep parts rule: join.induct) simp_all

lemma formatvalue_all_parts:
  "map (formatvalue str_of) elems = map Inr parts \<Longrightarrow> formatvalue_all str_of elems = Inr parts"
  by (induction elems arbitrary: parts) auto

lemma formatvalue_loop_texts:
  "map (\<lambda>(k, v). (k, formatvalue str_of v)) entries
     = map (\<lambda>(key, text). (StrObj key, Inr text)) texts \<Longrightarrow>
   formatvalue_loop str_of entries ret
     = Inr (ret @ concat (map (\<lambda>(key, text). key @ '' => '' @ text @ '',<br/>'') texts))"
proof (induction entries arbitrary: texts ret)
  case Nil
  then show ?case by simp
next
  case (Cons entry entries)
  then obtain key shown rest where texts: "texts = (key, shown) # rest"
    by (cases texts) auto
  obtain k v where entry: "entry = (k, v)"
    by (cases entry)
  from Cons.prems texts entry have k: "k = StrObj key" and v: "formatvalue str_of v = Inr shown"
    and rest: "map (\<lambda>(k, v). (k, formatvalue str_of v)) entries
                 = map (\<lambda>(key, text). (StrObj key, Inr text)) rest"
    by simp_all
  show ?case
    by (simp add: texts entry k v Cons.IH [OF rest])
qed

lemma formatvalue_other:
  "(\<forall>s. v \<noteq> StrObj s) \<Longrightarrow> (\<forall>elems. v \<noteq> ListObj elems) \<Longrightarrow> (\<forall>entries. v \<noteq> DictObj entries) \<Longrightarrow>
   formatvalue str_of v = Inr (str_of v)"
  by (cases v) simp_all

lemma formatvalue_total:
  "string_keys v \<longrightarrow> (\<exists>text. formatvalue str_of v = Inr text)"
  "string_keys_all elems \<longrightarrow> (\<exists>parts. formatvalue_all str_of elems = Inr parts)"
  "string_keys_items entries \<longrightarrow> (\<exists>text. formatvalue_loop str_of entries ret = Inr text)"
proof (induction str_of v and str_of elems and str_of entries ret
       rule: formatvalue_formatvalue_all_formatvalue_loop.induct)
  case (8 str_of k v entries ret)
  show ?case
  proof
    assume keys: "string_keys_items ((k, v) # entries)"
    then obtain key where k: "k = StrObj key"
      by (cases k) simp_all
    from keys have "string_keys v" and rest: "string_keys_items entries"
      by simp_all
    with "8.IH"(1) k obtain shown where v: "formatvalue str_of v = Inr shown"
      by blast
    from "8.IH"(2) [OF k v] rest show "\<exists>text. formatvalue_loop str_of ((k, v) # entries) ret = Inr text"
      by (simp add: k v)
  qed
qed auto

text \<open>
  Claim C6, as amended. \<open>formatvalue\<close> returns a string unchanged. For a list whose
  elements format to \<open>parts\<close>, it returns the parts with a comma and a space between two
  neighbours. For a dict whose keys are strings and whose values format to the texts of
  \<open>texts\<close>, it returns the concatenation, in insertion order, of
  \<^verbatim>\<open>key => formatted(value),<br/>\<close> for each entry, so that the result for a dict that is
  not empty still ends with \<^verbatim>\<open>,<br/>\<close>. For any value that is neither string, list nor
  dict, a tuple included, it returns \<^verbatim>\<open>str\<close> of the value. For every value in which all
  keys of dicts are strings there is such a result. The separator is stated without
  \<open>join\<close>.
\<close>

theorem formatvalue_cases:
  "formatvalue str_of (StrObj s) = Inr s
 \<and> (map (formatvalue str_of) elems = map Inr parts \<longrightarrow>
      formatvalue str_of (ListObj elems)
        = Inr (case parts of [] \<Rightarrow> [] | p # ps \<Rightarrow> p @ concat (map (\<lambda>q. '', '' @ q) ps)))
 \<and> (map (\<lambda>(k, v). (k, formatvalue str_of v)) entries
        = map (\<lambda>(key, text). (StrObj key, Inr text)) texts \<longrightarrow>
      formatvalue str_of (DictObj entries)
        = Inr (concat (map (\<lambda>(key, text). key @ '' => '' @ text @ '',<br/>'') texts))
      \<and> (texts \<noteq> [] \<longrightarrow> (\<exists>front. formatvalue str_of (DictObj entries) = Inr (front @ '',<br/>''))))
 \<and> ((\<forall>s. v \<noteq> StrObj s) \<and> (\<forall>elems. v \<noteq> ListObj elems) \<and> (\<forall>entries. v \<noteq> DictObj entries) \<longrightarrow>
      formatvalue str_of v = Inr (str_of v))
 \<and> (string_keys v \<longrightarrow> (\<exists>text. formatvalue str_of v = Inr text))"
proof -
  have list: "formatvalue str_of (ListObj elems)
        = Inr (case parts of [] \<Rightarrow> [] | p # ps \<Rightarrow> p @ concat (map (\<lambda>q. '', '' @ q) ps))"
    if "map (formatvalue str_of) elems = map Inr parts"
    using formatvalue_all_parts [OF that] by (simp add: join_concat)
  have dict: "formatvalue str_of (DictObj entries)
        = Inr (concat (map (\<lambda>(key, text). key @ '' => '' @ text @ '',<br/>'') texts))"
    if "map (\<lambda>(k, v). (k, formatvalue str_of v)) entries
          = map (\<lambda>(key, text). (StrObj key, Inr text)) texts"
    using formatvalue_loop_texts [OF that, of "[]"] by simp
  have trailing: "\<exists>front. formatvalue str_of (DictObj entries) = Inr (front @ '',<br/>'')"
    if entries: "map (\<lambda>(k, v). (k, formatvalue str_of v)) entries
          = map (\<lambda>(key, text). (StrObj key, Inr text)) texts" and "texts \<noteq> []"
  proof -
    from \<open>texts \<noteq> []\<close> obtain init last_entry where "texts = init @ [last_entry]"
      by (metis rev_exhaust)
    then have "\<exists>front. concat (map (\<lambda>(key, text). key @ '' => '' @ text @ '',<br/>'') texts)
                 = front @ '',<br/>''"
      by (cases last_entry) simp
    then show ?thesis
      by (simp only: dict [OF entries] sum.inject)
  qed
  have str: "formatvalue str_of (StrObj s) = Inr s"
    by simp
  have total: "string_keys v \<longrightarrow> (\<exists>text. formatvalue str_of v = Inr text)"
    by (rule formatvalue_total(1))
  from str list dict trailing formatvalue_other [of v str_of] total
  show ?thesis
    by blast
qed

theorem formatvalue_cases_witness:
  "formatvalue py_str (DictObj [(StrObj ''a'', StrObj ''1''), (StrObj ''b'', StrObj ''2'')])
     = Inr ''a => 1,<br/>b => 2,<br/>''
 \<and> formatvalue py_str (ListObj [StrObj ''x'', StrObj ''y'', StrObj ''z'']) = Inr ''x, y, z''
 \<and> formatvalue py_str (StrObj ''1'') = Inr ''1''
 \<and> formatvalue py_str (IntObj 5) = Inr (py_str (IntObj 5))
 \<and> string_keys (IntObj 5)"
  using formatvalue_cases
          [where str_of = py_str and s = "''1''"
             and elems = "[StrObj ''x'', StrObj ''y'', StrObj ''z'']"
             and parts = "[''x'', ''y'', ''z'']"
             and entries = "[(StrObj ''a'', StrObj ''1''), (StrObj ''b'', StrObj ''2'')]"
             and texts = "[(''a'', ''1''), (''b'', ''2'')]"
             and v = "IntObj 5"]
  by simp

text \<open>The formatter on an integer, on a dict with an integer key and on a tuple.\<close>

lemma formatvalue_examples:
  "formatvalue py_str (IntObj 5) = Inr ''5''"
  "formatvalue py_str (DictObj [(IntObj 1, StrObj ''a'')])
     = Inl (Exn TypeError (''unsupported operand type(s) for +: '' @ quoted ''int'' @ '' and ''
                             @ quoted ''str''))"
  "formatvalue py_str (TupleObj [StrObj ''a'', StrObj ''b''])
     = Inr (''('' @ quoted ''a'' @ '', '' @ quoted ''b'' @ '')'')"
  by code_simp+

text \<open>
  Claim C6, as stated, speaks of every key-value mapping and of every ordered sequence.
  A dict with the key 1 is a counterexample to the first: adding a string to the key
  raises \<^verbatim>\<open>TypeError\<close>. The tuple of the strings a and b is a counterexample to the
  second: it is no list, so it is given to \<^verbatim>\<open>str\<close>, whose result is not the elements
  joined by a comma and a space.
\<close>

theorem formatvalue_counterexample:
  "formatvalue py_str (DictObj [(IntObj 1, StrObj ''a'')])
     = Inl (Exn TypeError (''unsupported operand type(s) for +: '' @ quoted ''int'' @ '' and ''
                             @ quoted ''str''))
 \<and> formatvalue py_str (TupleObj [StrObj ''a'', StrObj ''b''])
     = Inr (''('' @ quoted ''a'' @ '', '' @ quoted ''b'' @ '')'')
 \<and> formatvalue py_str (TupleObj [StrObj ''a'', StrObj ''b'']) \<noteq> Inr ''a, b''"
  unfolding formatvalue_examples
  by (simp add: quoted_def)

section \<open>Properties of the environment validator\<close>

text \<open>
  Claim C8. \<open>check_env\<close> returns without a value exactly when the environment is the
  wildcard \<^verbatim>\<open>*\<close> or one of the known environments; otherwise it ends the request with
  status 404.
\<close>

theorem check_env_succeeds_iff:
  "(check_env env envs = Returned ()) = (env = ''*'' \<or> env \<in> envs)
 \<and> (\<not> (env = ''*'' \<or> env \<in> envs) \<longrightarrow> check_env env envs = Aborted 404)"
  by (simp add: check_env_def)

theorem check_env_succeeds_iff_witness:
  "check_env ''*'' {''prod''} = Returned ()
 \<and> check_env ''prod'' {''prod'', ''dev''} = Returned ()
 \<and> check_env ''qa'' {''prod'', ''dev''} = Aborted 404"
  using check_env_succeeds_iff [of "''*''" "{''prod''}"]
        check_env_succeeds_iff [of "''prod''" "{''prod'', ''dev''}"]
        check_env_succeeds_iff [of "''qa''" "{''prod'', ''dev''}"]
  by simp

section \<open>Properties of the value parser\<close>

lemma ast_literal_eval_list:
  "ast_literal_eval ''[1, 2, 3]'' = Inr (ListObj [IntObj 1, IntObj 2, IntObj 3])"
  by code_simp

lemma ast_literal_eval_malformed:
  "ast_literal_eval ''not valid syntax {'' = Inl (Exn SyntaxError ''invalid syntax'')"
  by code_simp

lemma ast_literal_eval_unhashable:
  "ast_literal_eval ''{[1]: 2}'' = Inl (Exn TypeError (''unhashable type: '' @ quoted ''list''))"
  by code_simp

text \<open>
  The parts of claim C7 that hold, for any literal evaluator: when literal evaluation of
  the string succeeds, \<open>parse_python\<close> returns the value of the literal; when it fails
  with a value error or a syntax error, \<open>parse_python\<close> returns the string unchanged.
  With the model of the evaluator, the string \<^verbatim>\<open>[1, 2, 3]\<close> gives the list of 1, 2 and 3,
  and \<^verbatim>\<open>not valid syntax {\<close> is returned unchanged.
\<close>

lemma parse_python_literal_or_unchanged:
  "(literal_eval value = Inr result \<longrightarrow> parse_python literal_eval value = Returned result)
 \<and> (literal_eval value = Inl e \<and> (kind e = ValueError \<or> kind e = SyntaxError)
      \<longrightarrow> parse_python literal_eval value = Returned (StrObj value))"
  by (auto simp add: parse_python_def)

lemma parse_python_examples:
  "parse_python ast_literal_eval ''[1, 2, 3]'' = Returned (ListObj [IntObj 1, IntObj 2, IntObj 3])
 \<and> parse_python ast_literal_eval ''not valid syntax {'' = Returned (StrObj ''not valid syntax {'')"
  using parse_python_literal_or_unchanged
          [of ast_literal_eval "''[1, 2, 3]''" "ListObj [IntObj 1, IntObj 2, IntObj 3]"]
        parse_python_literal_or_unchanged
          [of ast_literal_eval "''not valid syntax {''" _ "Exn SyntaxError ''invalid syntax''"]
  by (simp add: ast_literal_eval_list ast_literal_eval_malformed)

text \<open>An exception of any other class passes through \<open>parse_python\<close>.\<close>

lemma parse_python_propagates:
  "literal_eval value = Inl e \<Longrightarrow> kind e \<noteq> ValueError \<Longrightarrow> kind e \<noteq> SyntaxError \<Longrightarrow>
   parse_python literal_eval value = Raised e"
  by (cases "kind e") (simp_all add: parse_python_def)

text \<open>
  Claim C7. \<open>parse_python\<close> is to return the string unchanged whenever the string is no
  valid literal, and never to raise. The string \<^verbatim>\<open>{[1]: 2}\<close> is a dict display whose key
  is a list: literal evaluation raises \<^verbatim>\<open>TypeError\<close> (unhashable type), for which
  \<open>parse_python\<close> has no handler beside those for \<^verbatim>\<open>ValueError\<close> and \<^verbatim>\<open>SyntaxError\<close>, so
  the exception escapes instead of the string being returned.
\<close>

theorem parse_python_unhashable_key_raises:
  "parse_python ast_literal_eval ''{[1]: 2}''
     = Raised (Exn TypeError (''unhashable type: '' @ quoted ''list''))"
  by (simp add: parse_python_def ast_literal_eval_unhashable)

end
